theory Spec2Isabelle
  imports Complex_Main "HOL-Library.AList" "HOL-Library.List_Lexorder" "HOL-Library.Char_ord"
begin

section \<open>The progress service of the Chef learning site\<close>

text \<open>
  A shallow embedding of \<^verbatim>\<open>lib/chef-lab-client/app/services/progress.service.ts\<close>.
  JavaScript objects used as dictionaries are association lists in insertion order
  (\<^verbatim>\<open>Object.keys\<close> is \<open>map fst\<close>, a property read is \<open>map_of\<close>, a property write is
  \<open>AList.update\<close>, which keeps the place of a key that is already there and appends a new one).
  A thrown \<^verbatim>\<open>TypeError\<close> (a property read on \<^verbatim>\<open>undefined\<close>) is the value \<open>TypeError\<close>; a loop
  that never ends is the value \<open>None\<close> of a \<^theory_text>\<open>partial_function\<close>. The reading of the clock,
  \<^verbatim>\<open>new Date().toISOString()\<close>, is the argument \<open>now\<close> of the operation that reads it. The
  observables the methods return carry no data the service reads back and are left out;
  what the service does to the outside world is appended to a trace of effects.
\<close>

subsection \<open>JavaScript values\<close>

datatype 'a result = TypeError | Ret 'a

definition rbind :: "'a result option \<Rightarrow> ('a \<Rightarrow> 'b result option) \<Rightarrow> 'b result option" where
  "rbind m f = (case m of None \<Rightarrow> None | Some TypeError \<Rightarrow> Some TypeError | Some (Ret x) \<Rightarrow> f x)"

text \<open>A string-valued expression used as a condition: \<^verbatim>\<open>undefined\<close> and the empty string are falsy.\<close>

definition truthy :: "string option \<Rightarrow> bool" where
  "truthy v = (case v of None \<Rightarrow> False | Some str \<Rightarrow> str \<noteq> [])"

text \<open>A computed property key: \<^verbatim>\<open>obj[undefined]\<close> is the property named \<^verbatim>\<open>"undefined"\<close>.\<close>

definition prop_key :: "string option \<Rightarrow> string" where
  "prop_key v = (case v of None \<Rightarrow> ''undefined'' | Some k \<Rightarrow> k)"

text \<open>The result of an arithmetic expression that may be \<^verbatim>\<open>NaN\<close>.\<close>

datatype jsnum = Num int | NaN

text \<open>\<^verbatim>\<open>Math.round\<close> rounds half up; \<^verbatim>\<open>Math.min(100, Math.max(0, x))\<close>. Numbers are rationals.\<close>

definition js_round :: "rat \<Rightarrow> int" where
  "js_round x = \<lfloor>x + 1 / 2\<rfloor>"

definition clamp :: "int \<Rightarrow> int" where
  "clamp n = min 100 (max 0 n)"

text \<open>
  \<^verbatim>\<open>Array.prototype.sort(comparefn)\<close>: the insertion sort V8 ran on short arrays when the
  service was written. Elements are taken left to right; each moves left past every element
  \<open>tmp\<close> with \<open>comparefn tmp element > 0\<close>. The sorted front is kept reversed.
\<close>

fun insertBack :: "('a \<Rightarrow> 'a \<Rightarrow> int) \<Rightarrow> 'a \<Rightarrow> 'a list \<Rightarrow> 'a list" where
  "insertBack comparefn element [] = [element]"
| "insertBack comparefn element (tmp # front) =
     (if comparefn tmp element > 0 then tmp # insertBack comparefn element front
      else element # tmp # front)"

definition js_sort :: "('a \<Rightarrow> 'a \<Rightarrow> int) \<Rightarrow> 'a list \<Rightarrow> 'a list" where
  "js_sort comparefn xs = rev (foldl (\<lambda>front element. insertBack comparefn element front) [] xs)"

text \<open>
  \<^verbatim>\<open>Array.prototype.sort()\<close> with no comparator, on strings and \<^verbatim>\<open>undefined\<close>: the strings
  ascending by code unit, every \<^verbatim>\<open>undefined\<close> after them.
\<close>

definition sort_default :: "string option list \<Rightarrow> string option list" where
  "sort_default xs =
     map Some (sort (concat (map (\<lambda>x. case x of None \<Rightarrow> [] | Some v \<Rightarrow> [v]) xs)))
     @ filter (\<lambda>x. x = None) xs"

text \<open>\<^verbatim>\<open>a > b\<close> on strings and \<^verbatim>\<open>undefined\<close>: false as soon as one side is \<^verbatim>\<open>undefined\<close>.\<close>

definition js_gt :: "string option \<Rightarrow> string option \<Rightarrow> bool" where
  "js_gt a b = (case a of None \<Rightarrow> False | Some x \<Rightarrow> (case b of None \<Rightarrow> False | Some y \<Rightarrow> y < x))"

subsection \<open>The content catalog\<close>

text \<open>\<^verbatim>\<open>window.dataTree.modules\<close> and \<^verbatim>\<open>window.dataTree.tracks\<close>, supplied from outside.\<close>

record content_node =
  parent :: "string option"
  children :: "string list option"
  is_fork :: bool
  minutes :: "(rat \<times> rat) option"
  remaining :: "(rat \<times> rat) option"

record track_node =
  modules :: "string list option"

type_synonym catalog = "(string \<times> content_node) list"

type_synonym tracks = "(string \<times> track_node) list"

subsection \<open>Progress records, the state and the service\<close>

datatype LearningType = Achievements | Tracks | Modules | Units

fun type_key :: "LearningType \<Rightarrow> string" where
  "type_key Achievements = ''achievements''"
| "type_key Tracks = ''tracks''"
| "type_key Modules = ''modules''"
| "type_key Units = ''units''"

record learning =
  started_at :: "string option"
  completed_at :: "string option"
  achievement_type :: "string option"
  earned_at :: "string option"

type_synonym learning_map = "(string \<times> learning) list"

type_synonym progress_state = "(string \<times> learning_map) list"

text \<open>The object \<^verbatim>\<open>{}\<close>, and \<^verbatim>\<open>Object.assign(target, source)\<close>.\<close>

definition empty_learning :: learning where
  "empty_learning = \<lparr>started_at = None, completed_at = None, achievement_type = None, earned_at = None\<rparr>"

definition assign :: "learning \<Rightarrow> learning \<Rightarrow> learning" where
  "assign target source =
     \<lparr>started_at = (case started_at source of None \<Rightarrow> started_at target | Some v \<Rightarrow> Some v),
      completed_at = (case completed_at source of None \<Rightarrow> completed_at target | Some v \<Rightarrow> Some v),
      achievement_type = (case achievement_type source of None \<Rightarrow> achievement_type target | Some v \<Rightarrow> Some v),
      earned_at = (case earned_at source of None \<Rightarrow> earned_at target | Some v \<Rightarrow> Some v)\<rparr>"

text \<open>Every object is truthy, the empty one included: \<^verbatim>\<open>if (newData)\<close>.\<close>

definition obj_truthy :: "learning \<Rightarrow> bool" where
  "obj_truthy obj = True"

text \<open>
  What the service does to the outside world: a write to local storage (the whole state), a
  value sent to the subscribers of \<^verbatim>\<open>activeUserProgress\<close>, a \<^verbatim>\<open>PUT api/v1/progress\<close> with the
  changed record, a \<^verbatim>\<open>GET api/v1/progress\<close>.
\<close>

datatype effect =
    LocalStorageSet progress_state
  | Publish progress_state
  | HttpPut string string learning
  | HttpGet

text \<open>
  \<open>activeUserProgress\<close> is the value the \<^verbatim>\<open>BehaviorSubject\<close> holds: \<^verbatim>\<open>updateField\<close> mutates that
  object in place, so the value changes before anything is published. \<open>localStorage\<close> is the
  item \<^verbatim>\<open>userProgressInfo\<close>: \<open>None\<close> when it is missing or does not parse.
\<close>

record service =
  activeUserProgress :: progress_state
  isAuthenticated :: bool
  wasAnonymous :: bool
  localStorage :: "progress_state option"
  trace :: "effect list"

datatype outcome = Returned | Threw

subsection \<open>Walking the catalog\<close>

text \<open>The loop of \<^verbatim>\<open>getModuleRoot\<close>: \<open>moduleRoot\<close> is \<^verbatim>\<open>moduleData[pageId]\<close>.\<close>

partial_function (option) ascend :: "catalog \<Rightarrow> string \<Rightarrow> content_node option \<Rightarrow> string result option" where
  "ascend moduleData pageId moduleRoot =
     (case moduleRoot of
        None \<Rightarrow> Some TypeError
      | Some node \<Rightarrow>
          (case parent node of
             None \<Rightarrow> Some (Ret pageId)
           | Some p \<Rightarrow>
               if p \<noteq> [] \<and> p \<noteq> ''modules''
               then ascend moduleData p (map_of moduleData p)
               else Some (Ret pageId)))"

declare ascend.simps [code]

definition getModuleRoot :: "catalog \<Rightarrow> string \<Rightarrow> string option result option" where
  "getModuleRoot moduleData pageId =
     (case map_of moduleData pageId of
        None \<Rightarrow> Some (Ret None)
      | Some moduleRoot \<Rightarrow>
          rbind (ascend moduleData pageId (Some moduleRoot)) (\<lambda>root. Some (Ret (Some root))))"


text \<open>
  \<^verbatim>\<open>getChildPathIds\<close>: \<open>childWalk\<close> is the \<^verbatim>\<open>forEach\<close> over a list of children, with the
  recursive call on each child. A recursion with no end is the value \<open>None\<close>; the engine
  ends it when its stack is full, and the call returns no list then either.
\<close>

definition childrenOf :: "catalog \<Rightarrow> string \<Rightarrow> string list" where
  "childrenOf moduleData pageId =
     (case map_of moduleData pageId of
        None \<Rightarrow> []
      | Some node \<Rightarrow> (case children node of None \<Rightarrow> [] | Some cs \<Rightarrow> cs))"

partial_function (option) childWalk :: "catalog \<Rightarrow> string list \<Rightarrow> string list option" where
  "childWalk moduleData cs =
     (case cs of
        [] \<Rightarrow> Some []
      | child # rest \<Rightarrow>
          Option.bind (childWalk moduleData (childrenOf moduleData child)) (\<lambda>below.
          Option.bind (childWalk moduleData rest) (\<lambda>after.
          Some (child # below @ after))))"

declare childWalk.simps [code]

definition getChildPathIds :: "catalog \<Rightarrow> string \<Rightarrow> string list option" where
  "getChildPathIds moduleData pageId = childWalk moduleData (childrenOf moduleData pageId)"

text \<open>
  \<^verbatim>\<open>(parent && !moduleData[parent].is_fork) ? parent : activeItemId\<close>, as both
  \<^verbatim>\<open>getActivePathIds\<close> and \<^verbatim>\<open>getModuleProgress\<close> compute it.
\<close>

definition childRootOf :: "catalog \<Rightarrow> string \<Rightarrow> content_node \<Rightarrow> string result" where
  "childRootOf moduleData activeItemId node =
     (case parent node of
        None \<Rightarrow> Ret activeItemId
      | Some p \<Rightarrow>
          if p = [] then Ret activeItemId
          else (case map_of moduleData p of
                  None \<Rightarrow> TypeError
                | Some parentNode \<Rightarrow> Ret (if \<not> is_fork parentNode then p else activeItemId)))"

text \<open>The loop of \<^verbatim>\<open>getActivePathIds\<close> that puts the ancestors in front of \<open>ids\<close>.\<close>

partial_function (option) parentPath :: "catalog \<Rightarrow> string option \<Rightarrow> string list \<Rightarrow> string list result option" where
  "parentPath moduleData p ids =
     (case p of
        None \<Rightarrow> Some (Ret ids)
      | Some q \<Rightarrow>
          if q \<noteq> [] \<and> q \<noteq> ''modules''
          then (case map_of moduleData q of
                  None \<Rightarrow> Some TypeError
                | Some parentNode \<Rightarrow> parentPath moduleData (parent parentNode) (q # ids))
          else Some (Ret ids))"

declare parentPath.simps [code]

definition getActivePathIds :: "catalog \<Rightarrow> string \<Rightarrow> string list result option" where
  "getActivePathIds moduleData activeItemId =
     (case map_of moduleData activeItemId of
        None \<Rightarrow> Some (Ret [])
      | Some node \<Rightarrow>
          rbind (Some (childRootOf moduleData activeItemId node)) (\<lambda>childRoot.
          rbind (case map_of moduleData childRoot of
                   None \<Rightarrow> Some (Ret [childRoot])
                 | Some rootNode \<Rightarrow>
                     if truthy (parent rootNode)
                     then parentPath moduleData (parent rootNode) [childRoot]
                     else Some (Ret [childRoot])) (\<lambda>ids.
          case getChildPathIds moduleData childRoot of
            None \<Rightarrow> None
          | Some below \<Rightarrow> Some (Ret (ids @ below)))))"

subsection \<open>Reading and writing the state\<close>

text \<open>
  The regular expression \<^verbatim>\<open>'^' + pageId + '(\/.+)?$'\<close>, for a \<open>pageId\<close> with no character that
  is special in a regular expression (page identifiers are URL paths of letters, digits,
  \<^verbatim>\<open>-\<close>, \<^verbatim>\<open>_\<close> and \<^verbatim>\<open>/\<close>): the key is \<open>pageId\<close>, or \<open>pageId\<close>, a slash and one character or more,
  none of them a line terminator.
\<close>

definition line_terminator :: "char \<Rightarrow> bool" where
  "line_terminator c = (c = CHR 0x0A \<or> c = CHR 0x0D)"

definition wildcard_match :: "string \<Rightarrow> string \<Rightarrow> bool" where
  "wildcard_match pageId key =
     (key = pageId \<or>
      (take (length pageId + 1) key = pageId @ ''/'' \<and>
       drop (length pageId + 1) key \<noteq> [] \<and>
       list_all (\<lambda>c. \<not> line_terminator c) (drop (length pageId + 1) key)))"

text \<open>
  \<^verbatim>\<open>getUserProgressData\<close> returns the whole state, the records of one type, or one record,
  by the arguments that are truthy.
\<close>

datatype progress_data = Whole progress_state | Records learning_map | Single learning

definition getUserProgressData ::
  "service \<Rightarrow> LearningType option \<Rightarrow> string option \<Rightarrow> bool \<Rightarrow> progress_data" where
  "getUserProgressData s learningType pageId wildcard =
     (case learningType of
        None \<Rightarrow> Whole (activeUserProgress s)
      | Some lt \<Rightarrow>
          (let data = (case map_of (activeUserProgress s) (type_key lt) of None \<Rightarrow> [] | Some m \<Rightarrow> m)
           in if truthy pageId
              then (if wildcard
                    then Records (filter (\<lambda>(key, r). wildcard_match (prop_key pageId) key) data)
                    else Single (case map_of data (prop_key pageId) of None \<Rightarrow> empty_learning | Some r \<Rightarrow> r))
              else Records data))"

text \<open>
  What the callers do with the value read: \<^verbatim>\<open>Object.keys\<close> and indexing when they asked for
  records, \<^verbatim>\<open>.started_at\<close> and \<^verbatim>\<open>.completed_at\<close> as conditions when they asked for one record.
  A caller that asked for one record with a falsy \<open>pageId\<close> holds the records of the type,
  where \<^verbatim>\<open>.started_at\<close> is the record of that name, truthy when it is there.
\<close>

fun entries :: "progress_data \<Rightarrow> learning_map" where
  "entries (Records m) = m"
| "entries (Single r) = []"
| "entries (Whole d) = []"

fun started_truthy :: "progress_data \<Rightarrow> bool" where
  "started_truthy (Single r) = truthy (started_at r)"
| "started_truthy (Records m) = (map_of m ''started_at'' \<noteq> None)"
| "started_truthy (Whole d) = (map_of d ''started_at'' \<noteq> None)"

fun completed_truthy :: "progress_data \<Rightarrow> bool" where
  "completed_truthy (Single r) = truthy (completed_at r)"
| "completed_truthy (Records m) = (map_of m ''completed_at'' \<noteq> None)"
| "completed_truthy (Whole d) = (map_of d ''completed_at'' \<noteq> None)"

text \<open>
  \<^verbatim>\<open>updateField\<close>, in the two parts its comments name: the in-memory object and local storage
  (lines 294 to 306), then the subscribers or the server (lines 308 to 334). The handlers of
  the request run when it settles, after \<^verbatim>\<open>updateField\<close> has returned.
\<close>

definition mergedRecord :: "progress_state \<Rightarrow> string \<Rightarrow> string \<Rightarrow> learning \<Rightarrow> learning" where
  "mergedRecord dataLocal learningType pageId fieldValues =
     assign (case map_of (case map_of dataLocal learningType of None \<Rightarrow> [] | Some m \<Rightarrow> m) pageId of
               None \<Rightarrow> empty_learning
             | Some r \<Rightarrow> r) fieldValues"

definition mergedState :: "progress_state \<Rightarrow> string \<Rightarrow> string \<Rightarrow> learning \<Rightarrow> progress_state" where
  "mergedState dataLocal learningType pageId fieldValues =
     AList.update learningType
       (AList.update pageId (mergedRecord dataLocal learningType pageId fieldValues)
          (case map_of dataLocal learningType of None \<Rightarrow> [] | Some m \<Rightarrow> m))
       dataLocal"

definition updateLocal :: "string \<Rightarrow> string \<Rightarrow> learning \<Rightarrow> service \<Rightarrow> service" where
  "updateLocal learningType pageId fieldValues s =
     (let dataLocal = mergedState (activeUserProgress s) learningType pageId fieldValues
      in s\<lparr>activeUserProgress := dataLocal,
           localStorage := Some dataLocal,
           trace := trace s @ [LocalStorageSet dataLocal]\<rparr>)"

definition updateRemote :: "string \<Rightarrow> string \<Rightarrow> learning \<Rightarrow> service \<Rightarrow> service" where
  "updateRemote learningType pageId dataChange s =
     (if \<not> isAuthenticated s
      then s\<lparr>trace := trace s @ [Publish (activeUserProgress s)]\<rparr>
      else s\<lparr>trace := trace s @ [HttpPut learningType pageId dataChange]\<rparr>)"

definition updateField :: "string \<Rightarrow> string \<Rightarrow> learning \<Rightarrow> service \<Rightarrow> service" where
  "updateField learningType pageId fieldValues s =
     updateRemote learningType pageId
       (mergedRecord (activeUserProgress s) learningType pageId fieldValues)
       (updateLocal learningType pageId fieldValues s)"

subsection \<open>Last accessed record and module progress\<close>

text \<open>\<^verbatim>\<open>[data[a].started_at, data[a].completed_at].sort().reverse()[0]\<close>.\<close>

definition touch_time :: "learning \<Rightarrow> string option" where
  "touch_time r =
     (case rev (sort_default [started_at r, completed_at r]) of [] \<Rightarrow> None | d # ds \<Rightarrow> d)"

definition dateOf :: "learning_map \<Rightarrow> string \<Rightarrow> string option" where
  "dateOf data key = (case map_of data key of None \<Rightarrow> None | Some r \<Rightarrow> touch_time r)"

text \<open>
  \<^verbatim>\<open>getLastAccessed\<close>, with the engine's sort as an argument, and with the sort above. The
  result is the record found, with its key as \<^verbatim>\<open>id\<close>.
\<close>

definition getLastAccessedBy ::
  "((string \<Rightarrow> string \<Rightarrow> int) \<Rightarrow> string list \<Rightarrow> string list) \<Rightarrow>
   service \<Rightarrow> LearningType \<Rightarrow> string \<Rightarrow> (string \<times> learning) option" where
  "getLastAccessedBy engineSort s learningType pageId =
     (let data = entries (getUserProgressData s (Some learningType) (Some pageId) True);
          sorted = engineSort (\<lambda>a b. if js_gt (dateOf data a) (dateOf data b) then - 1 else 1) (map fst data)
      in case sorted of
           [] \<Rightarrow> None
         | first # others \<Rightarrow> (case map_of data first of None \<Rightarrow> None | Some r \<Rightarrow> Some (first, r)))"

definition getLastAccessed :: "service \<Rightarrow> LearningType \<Rightarrow> string \<Rightarrow> (string \<times> learning) option" where
  "getLastAccessed = getLastAccessedBy js_sort"

definition addRange :: "rat \<times> rat \<Rightarrow> (rat \<times> rat) option \<Rightarrow> rat \<times> rat" where
  "addRange baseTimeRange timeRange =
     (case timeRange of
        None \<Rightarrow> baseTimeRange
      | Some r \<Rightarrow> (fst baseTimeRange + fst r, snd baseTimeRange + snd r))"

definition average :: "rat \<times> rat \<Rightarrow> rat" where
  "average timeRange = (fst timeRange + snd timeRange) / 2"

text \<open>The loop of \<^verbatim>\<open>getModuleProgress\<close> that adds the minutes of the ancestors.\<close>

partial_function (option) parentTime ::
  "catalog \<Rightarrow> string option \<Rightarrow> rat \<times> rat \<Rightarrow> (rat \<times> rat) result option" where
  "parentTime moduleData p baseTimeRange =
     (case p of
        None \<Rightarrow> Some (Ret baseTimeRange)
      | Some q \<Rightarrow>
          if q \<noteq> [] \<and> q \<noteq> ''modules''
          then (case map_of moduleData q of
                  None \<Rightarrow> Some TypeError
                | Some parentData \<Rightarrow>
                    parentTime moduleData (parent parentData) (addRange baseTimeRange (minutes parentData)))
          else Some (Ret baseTimeRange))"

declare parentTime.simps [code]

text \<open>
  \<^verbatim>\<open>Math.min(100, Math.max(0, Math.round(100 * cnt / len)))\<close> on two lengths: a
  division by zero is \<^verbatim>\<open>NaN\<close> for \<open>0 / 0\<close> and \<^verbatim>\<open>Infinity\<close> otherwise, and no fault.
\<close>

definition countProgress :: "nat \<Rightarrow> nat \<Rightarrow> jsnum" where
  "countProgress cnt len =
     (if len = 0 then (if cnt = 0 then NaN else Num 100)
      else Num (clamp (js_round (100 * of_nat cnt / of_nat len))))"

definition timeProgress :: "rat \<Rightarrow> rat \<Rightarrow> jsnum" where
  "timeProgress userCompletedAvg baseTimeAvg =
     Num (clamp (js_round (100 * userCompletedAvg / baseTimeAvg)))"

definition completedTime :: "catalog \<Rightarrow> string \<Rightarrow> rat" where
  "completedTime moduleData completeId =
     (case map_of moduleData completeId of
        None \<Rightarrow> 0
      | Some completeItem \<Rightarrow>
          average (case minutes completeItem of None \<Rightarrow> (0, 0) | Some timeRange \<Rightarrow> timeRange))"

text \<open>
  \<^verbatim>\<open>getModuleProgress\<close>, in the parts its comments name: the active item (lines 155 to
  161), the base time of the current path (lines 167 to 190), the completed pages of the
  active path (lines 195 to 212; their times are added up below), and the result.
\<close>

definition activeItemOf :: "service \<Rightarrow> content_node \<Rightarrow> string \<Rightarrow> string" where
  "activeItemOf s pageData pageId =
     (if parent pageData = Some ''modules''
      then (case getLastAccessed s Modules pageId of
              None \<Rightarrow> pageId
            | Some lastAccessed \<Rightarrow> fst lastAccessed)
      else pageId)"

definition baseTimeOf :: "catalog \<Rightarrow> string \<Rightarrow> content_node \<Rightarrow> (rat \<times> rat) result option" where
  "baseTimeOf moduleData activeItemId currentPageData =
     rbind (Some (childRootOf moduleData activeItemId currentPageData)) (\<lambda>childRoot.
     case map_of moduleData childRoot of
       None \<Rightarrow> Some TypeError
     | Some rootData \<Rightarrow>
         if truthy (parent rootData)
         then parentTime moduleData (parent rootData) (addRange (0, 0) (remaining rootData))
         else Some (Ret (addRange (0, 0) (remaining rootData))))"

definition completedInPath :: "service \<Rightarrow> string option \<Rightarrow> string list \<Rightarrow> string list" where
  "completedInPath s moduleId activePathIds =
     (let userData = entries (getUserProgressData s (Some Units) moduleId True);
          complete = filter (\<lambda>key. case map_of userData key of
                                     None \<Rightarrow> False
                                   | Some r \<Rightarrow> truthy (completed_at r)) (map fst userData)
      in filter (\<lambda>completeId. completeId \<in> set activePathIds) complete)"

definition getModuleProgress :: "catalog \<Rightarrow> service \<Rightarrow> string \<Rightarrow> jsnum result option" where
  "getModuleProgress moduleData s pageId =
     (case map_of moduleData pageId of
        None \<Rightarrow> Some (Ret (Num 0))
      | Some pageData \<Rightarrow>
          (let activeItemId = activeItemOf s pageData pageId
           in rbind (getActivePathIds moduleData activeItemId) (\<lambda>activePathIds.
              case map_of moduleData activeItemId of
                None \<Rightarrow> Some (Ret (Num 0))
              | Some currentPageData \<Rightarrow>
                  rbind (baseTimeOf moduleData activeItemId currentPageData) (\<lambda>baseTimeRange.
                  rbind (getModuleRoot moduleData pageId) (\<lambda>moduleId.
                  (let baseTimeAvg = average baseTimeRange;
                       activePathIdsCompleted = completedInPath s moduleId activePathIds;
                       userCompletedAvg = sum_list (map (completedTime moduleData) activePathIdsCompleted)
                   in Some (Ret (if baseTimeAvg \<noteq> 0
                                 then timeProgress userCompletedAvg baseTimeAvg
                                 else countProgress (length activePathIdsCompleted)
                                        (length activePathIds)))))))))"

subsection \<open>The completion cascade\<close>

text \<open>\<^verbatim>\<open>getModuleProgress(pageId) >= 100\<close>: a comparison with \<^verbatim>\<open>NaN\<close> is false.\<close>

fun atLeast100 :: "jsnum \<Rightarrow> bool" where
  "atLeast100 (Num n) = (100 \<le> n)"
| "atLeast100 NaN = False"

definition startedNow :: "string \<Rightarrow> learning" where
  "startedNow now = empty_learning\<lparr>started_at := Some now\<rparr>"

definition completedNow :: "string \<Rightarrow> learning" where
  "completedNow now = empty_learning\<lparr>completed_at := Some now\<rparr>"

definition earnedNow :: "string \<Rightarrow> learning" where
  "earnedNow now = empty_learning\<lparr>achievement_type := Some ''standard'', earned_at := Some now\<rparr>"

definition completeModule :: "catalog \<Rightarrow> string \<Rightarrow> string \<Rightarrow> service \<Rightarrow> (outcome \<times> service) option" where
  "completeModule moduleData now pageId s =
     (case getModuleRoot moduleData pageId of
        None \<Rightarrow> None
      | Some TypeError \<Rightarrow> Some (Threw, s)
      | Some (Ret moduleId) \<Rightarrow>
          (let currentState = getUserProgressData s (Some Modules) moduleId False;
               newData = (if \<not> started_truthy currentState
                          then empty_learning\<lparr>started_at := Some now\<rparr>
                          else empty_learning)
           in if \<not> completed_truthy currentState
              then (case getModuleProgress moduleData s pageId of
                      None \<Rightarrow> None
                    | Some TypeError \<Rightarrow> Some (Threw, s)
                    | Some (Ret progress) \<Rightarrow>
                        (let newData = (if atLeast100 progress
                                        then newData\<lparr>completed_at := Some now\<rparr>
                                        else newData)
                         in Some (Returned,
                                  if obj_truthy newData
                                  then updateField ''modules'' (prop_key moduleId) newData s
                                  else s)))
              else Some (Returned,
                         if obj_truthy newData
                         then updateField ''modules'' (prop_key moduleId) newData s
                         else s)))"

text \<open>The body of the \<^verbatim>\<open>forEach\<close> of \<^verbatim>\<open>completeTracks\<close>, for one track.\<close>

definition completeTrack :: "tracks \<Rightarrow> string \<Rightarrow> string \<Rightarrow> service \<Rightarrow> service" where
  "completeTrack trackData now trackId s =
     (case map_of trackData trackId of
        None \<Rightarrow> s
      | Some track \<Rightarrow>
          (case modules track of
             None \<Rightarrow> s
           | Some members \<Rightarrow>
               (let modulesComplete =
                      filter (\<lambda>moduleId. completed_truthy
                                (getUserProgressData s (Some Modules) (Some moduleId) False)) members
                in if length members = length modulesComplete
                   then (let currentState = getUserProgressData s (Some Tracks) (Some trackId) False;
                             newData = (if \<not> started_truthy currentState
                                        then empty_learning\<lparr>started_at := Some now\<rparr>
                                        else empty_learning);
                             newData = (if \<not> completed_truthy currentState
                                        then newData\<lparr>completed_at := Some now\<rparr>
                                        else newData)
                         in if obj_truthy newData then updateField ''tracks'' trackId newData s else s)
                   else s)))"

definition completeTracks :: "tracks \<Rightarrow> string \<Rightarrow> service \<Rightarrow> service" where
  "completeTracks trackData now s = fold (completeTrack trackData now) (map fst trackData) s"

text \<open>
  \<^verbatim>\<open>awardAchievements\<close> reads the three mappings once, before it writes. The mapping of the
  achievements is the object of the state when the state has one, and then sees the writes
  of this call; it is a fresh empty object otherwise, and then sees none of them.
\<close>

definition recordedIn :: "service \<Rightarrow> string \<Rightarrow> bool" where
  "recordedIn s key =
     (map_of (entries (getUserProgressData s (Some Achievements) None False)) key \<noteq> None)"

definition completedKeys :: "learning_map \<Rightarrow> string list" where
  "completedKeys data =
     filter (\<lambda>key. case map_of data key of None \<Rightarrow> False | Some r \<Rightarrow> truthy (completed_at r))
       (map fst data)"

definition grant :: "bool \<Rightarrow> string \<Rightarrow> string \<Rightarrow> service \<Rightarrow> service" where
  "grant attached now key s =
     (if \<not> (attached \<and> recordedIn s key)
      then updateField ''achievements'' key (earnedNow now) s
      else s)"

definition awardAchievements :: "string \<Rightarrow> service \<Rightarrow> service" where
  "awardAchievements now s =
     (let modulesData = entries (getUserProgressData s (Some Modules) None False);
          tracksData = entries (getUserProgressData s (Some Tracks) None False);
          attached = (map_of (activeUserProgress s) ''achievements'' \<noteq> None);
          s1 = (if length (completedKeys modulesData) > 0
                then grant attached now ''grand-opening'' s
                else s);
          completedTracks = completedKeys tracksData
      in fold (grant attached now) completedTracks s1)"

subsection \<open>The public operations\<close>



subsection \<open>Session initialisation\<close>









subsection \<open>Reading one record of a state; an example catalog\<close>

definition recordAt :: "progress_state \<Rightarrow> string \<Rightarrow> string \<Rightarrow> learning option" where
  "recordAt dataLocal learningType pageId =
     (case map_of dataLocal learningType of None \<Rightarrow> None | Some m \<Rightarrow> map_of m pageId)"

text \<open>
  A catalog as the site builds them: the root \<^verbatim>\<open>modules\<close> is a node, the module \<^verbatim>\<open>m\<close> has
  the two unit pages \<^verbatim>\<open>m/u1\<close> and \<^verbatim>\<open>m/u2\<close>, and the track \<^verbatim>\<open>t\<close> has the one module.
\<close>

definition node ::
  "string option \<Rightarrow> string list option \<Rightarrow> (rat \<times> rat) option \<Rightarrow> (rat \<times> rat) option \<Rightarrow> content_node" where
  "node p cs m r = \<lparr>parent = p, children = cs, is_fork = False, minutes = m, remaining = r\<rparr>"

definition demoModules :: catalog where
  "demoModules =
     [(''modules'', node None (Some [''m'']) None None),
      (''m'', node (Some ''modules'') (Some [''m/u1'', ''m/u2'']) None (Some (15, 15))),
      (''m/u1'', node (Some ''m'') None (Some (5, 5)) None),
      (''m/u2'', node (Some ''m'') None (Some (10, 10)) None)]"

definition demoTracks :: tracks where
  "demoTracks = [(''tracks'', \<lparr>modules = None\<rparr>), (''t'', \<lparr>modules = Some [''m'']\<rparr>)]"


definition holding :: "bool \<Rightarrow> progress_state \<Rightarrow> service" where
  "holding auth dataLocal =
     \<lparr>activeUserProgress = dataLocal, isAuthenticated = auth, wasAnonymous = False,
      localStorage = Some dataLocal, trace = []\<rparr>"

text \<open>Whether the state has a mapping of achievements, as \<^verbatim>\<open>awardAchievements\<close> finds it.\<close>

definition attachedIn :: "service \<Rightarrow> bool" where
  "attachedIn s = (map_of (activeUserProgress s) ''achievements'' \<noteq> None)"

text \<open>A state in which the module \<^verbatim>\<open>m\<close>, its two pages and the track \<^verbatim>\<open>t\<close> are complete.\<close>

definition stamped :: "string \<Rightarrow> string \<Rightarrow> learning" where
  "stamped started completed = empty_learning\<lparr>started_at := Some started, completed_at := Some completed\<rparr>"

definition doneState :: progress_state where
  "doneState =
     [(''units'', [(''m/u1'', stamped ''2017-06-01T09:00:00.000Z'' ''2017-06-01T09:30:00.000Z''),
                  (''m/u2'', stamped ''2017-06-01T09:30:00.000Z'' ''2017-06-01T10:00:00.000Z'')]),
      (''modules'', [(''m'', stamped ''2017-06-01T09:30:00.000Z'' ''2017-06-01T10:00:00.000Z'')]),
      (''tracks'', [(''t'', stamped ''2017-06-01T10:00:00.000Z'' ''2017-06-01T10:00:00.000Z'')])]"

text \<open>
  Three pages of \<^verbatim>\<open>m\<close> started and not completed: \<^verbatim>\<open>m/u1\<close> first, \<^verbatim>\<open>m/u3\<close> an hour later, and
  \<^verbatim>\<open>m/u2\<close>, first started between the two, started again another hour later. Then two states
  with the same two keys, the later start on the second key and on the first.
\<close>

definition visited :: progress_state where
  "visited =
     [(''units'', [(''m/u1'', startedNow ''2017-06-01T09:00:00.000Z''),
                  (''m/u2'', startedNow ''2017-06-01T11:00:00.000Z''),
                  (''m/u3'', startedNow ''2017-06-01T10:00:00.000Z'')])]"

definition laterSecond :: progress_state where
  "laterSecond =
     [(''units'', [(''m/u1'', startedNow ''2017-06-01T09:00:00.000Z''),
                  (''m/u2'', startedNow ''2017-06-01T11:00:00.000Z'')])]"

definition laterFirst :: progress_state where
  "laterFirst =
     [(''units'', [(''m/u1'', startedNow ''2017-06-01T11:00:00.000Z''),
                  (''m/u2'', startedNow ''2017-06-01T09:00:00.000Z'')])]"

subsection \<open>The links of a catalog\<close>

text \<open>
  The parent links and the child links of a catalog, as relations from the node a link
  names to the node that holds the link; two catalogs with a cycle.
\<close>

definition parentRel :: "catalog \<Rightarrow> (string \<times> string) set" where
  "parentRel moduleData = {(p, k). \<exists>n. map_of moduleData k = Some n \<and> parent n = Some p}"

definition childRel :: "catalog \<Rightarrow> (string \<times> string) set" where
  "childRel moduleData = {(c, k). c \<in> set (childrenOf moduleData k)}"

definition cyclicParents :: catalog where
  "cyclicParents = [(''a'', node (Some ''b'') None None None), (''b'', node (Some ''a'') None None None)]"

definition cyclicChildren :: catalog where
  "cyclicChildren = [(''a'', node None (Some [''b'']) None None), (''b'', node None (Some [''a'']) None None)]"







subsection \<open>Sequences of the public write operations\<close>






definition stampedBy :: "string \<Rightarrow> learning \<Rightarrow> bool" where
  "stampedBy now fieldValues =
     ((started_at fieldValues = None \<or> started_at fieldValues = Some now)
      \<and> (completed_at fieldValues = None \<or> completed_at fieldValues = Some now))"



section \<open>Properties\<close>

subsection \<open>The store\<close>

lemma recordAt_mergedState_same:
  "recordAt (mergedState d k i fv) k i = Some (mergedRecord d k i fv)"
  by (simp add: recordAt_def mergedState_def update_conv')

lemma recordAt_mergedState_other:
  "k' \<noteq> k \<or> i' \<noteq> i \<Longrightarrow> recordAt (mergedState d k i fv) k' i' = recordAt d k' i'"
  by (auto simp: recordAt_def mergedState_def update_conv' split: option.splits)


lemma updateField_active [simp]:
  "activeUserProgress (updateField k i fv s) = mergedState (activeUserProgress s) k i fv"
  by (simp add: updateField_def updateRemote_def updateLocal_def Let_def)

lemma updateField_auth [simp]:
  "isAuthenticated (updateField k i fv s) = isAuthenticated s"
  by (simp add: updateField_def updateRemote_def updateLocal_def Let_def)

lemma updateField_anon [simp]:
  "wasAnonymous (updateField k i fv s) = wasAnonymous s"
  by (simp add: updateField_def updateRemote_def updateLocal_def Let_def)

lemma updateField_storage [simp]:
  "localStorage (updateField k i fv s) = Some (mergedState (activeUserProgress s) k i fv)"
  by (simp add: updateField_def updateRemote_def updateLocal_def Let_def)





subsection \<open>Classification none\<close>



subsection \<open>Achievements\<close>

lemma recordedIn_recordAt:
  "recordedIn s key = (recordAt (activeUserProgress s) ''achievements'' key \<noteq> None)"
  by (simp add: recordedIn_def getUserProgressData_def truthy_def recordAt_def split: option.splits)

lemma attached_update: "attachedIn (updateField ''achievements'' key fv s)"
  by (simp add: attachedIn_def mergedState_def update_conv')

lemma recorded_update: "recordedIn (updateField ''achievements'' key fv s) key"
  by (simp add: recordedIn_recordAt recordAt_mergedState_same)

lemma recorded_update_mono:
  "recordedIn s key' \<Longrightarrow> recordedIn (updateField ''achievements'' key fv s) key'"
  by (cases "key' = key")
    (simp_all add: recordedIn_recordAt recordAt_mergedState_same recordAt_mergedState_other)

lemma attached_update_mono: "attachedIn s \<Longrightarrow> attachedIn (updateField k key fv s)"
  by (auto simp: attachedIn_def mergedState_def update_conv')

lemma grant_recorded:
  "(a \<longrightarrow> attachedIn s) \<Longrightarrow> recordedIn (grant a now key s) key \<and> attachedIn (grant a now key s)"
  by (auto simp: grant_def recorded_update attached_update)

lemma grant_mono: "recordedIn s key' \<Longrightarrow> recordedIn (grant a now key s) key'"
  by (simp add: grant_def recorded_update_mono)

lemma grant_attached_mono: "attachedIn s \<Longrightarrow> attachedIn (grant a now key s)"
  by (simp add: grant_def attached_update_mono)

lemma fold_grant_mono:
  "recordedIn s key' \<Longrightarrow> recordedIn (fold (grant a now) keys s) key'"
  by (induction keys arbitrary: s) (simp_all add: grant_mono)

lemma fold_grant_attached_mono:
  "attachedIn s \<Longrightarrow> attachedIn (fold (grant a now) keys s)"
  by (induction keys arbitrary: s) (simp_all add: grant_attached_mono)

lemma fold_grant_recorded:
  "(a \<longrightarrow> attachedIn s) \<Longrightarrow> key \<in> set keys \<Longrightarrow>
   recordedIn (fold (grant a now) keys s) key \<and> attachedIn (fold (grant a now) keys s)"
proof (induction keys arbitrary: s)
  case Nil
  then show ?case by simp
next
  case (Cons k ks)
  have g: "recordedIn (grant a now k s) k \<and> attachedIn (grant a now k s)"
    using Cons.prems(1) by (rule grant_recorded)
  show ?case
  proof (cases "key \<in> set ks")
    case True
    have "a \<longrightarrow> attachedIn (grant a now k s)" using g by blast
    from Cons.IH [OF this True] show ?thesis by simp
  next
    case False
    then have "key = k" using Cons.prems(2) by simp
    then show ?thesis using g by (simp add: fold_grant_mono fold_grant_attached_mono)
  qed
qed

lemma fold_grant_noop:
  "attachedIn s \<Longrightarrow> \<forall>key \<in> set keys. recordedIn s key \<Longrightarrow>
   fold (grant (attachedIn s) now) keys s = s"
  by (induction keys) (simp_all add: grant_def)

lemma records_other_update:
  "type_key lt \<noteq> k \<Longrightarrow>
   getUserProgressData (updateField k key fv s) (Some lt) None False =
   getUserProgressData s (Some lt) None False"
  by (simp add: getUserProgressData_def truthy_def mergedState_def update_conv')

lemma records_grant:
  "lt \<noteq> Achievements \<Longrightarrow>
   getUserProgressData (grant a now key s) (Some lt) None False =
   getUserProgressData s (Some lt) None False"
  by (cases lt) (simp_all add: grant_def records_other_update)

lemma records_fold_grant:
  "lt \<noteq> Achievements \<Longrightarrow>
   getUserProgressData (fold (grant a now) keys s) (Some lt) None False =
   getUserProgressData s (Some lt) None False"
  by (induction keys arbitrary: s) (simp_all add: records_grant)

lemma records_award:
  "lt \<noteq> Achievements \<Longrightarrow>
   getUserProgressData (awardAchievements now s) (Some lt) None False =
   getUserProgressData s (Some lt) None False"
  by (simp add: awardAchievements_def Let_def records_fold_grant records_grant)

lemma award_recorded:
  "(completedKeys (entries (getUserProgressData s (Some Modules) None False)) \<noteq> [] \<longrightarrow>
      recordedIn (awardAchievements now s) ''grand-opening'' \<and> attachedIn (awardAchievements now s))
   \<and> (\<forall>key \<in> set (completedKeys (entries (getUserProgressData s (Some Tracks) None False))).
        recordedIn (awardAchievements now s) key \<and> attachedIn (awardAchievements now s))"
proof -
  let ?a = "map_of (activeUserProgress s) ''achievements'' \<noteq> None"
  have a0: "?a \<longrightarrow> attachedIn s" by (simp add: attachedIn_def)
  have a1: "?a \<longrightarrow> attachedIn (grant ?a now ''grand-opening'' s)"
    using a0 by (simp add: grant_attached_mono)
  show ?thesis
    unfolding awardAchievements_def Let_def
    using a0 a1 grant_recorded [OF a0, of now "''grand-opening''"]
    by (auto simp: fold_grant_mono fold_grant_attached_mono fold_grant_recorded)
qed

text \<open>
  C6. A second run of \<^verbatim>\<open>awardAchievements\<close> right after a first one changes nothing and writes
  nothing: the service, its trace of effects included, is as the first run left it. The
  first run leaves \<^verbatim>\<open>grand-opening\<close> recorded when some module is complete, and every
  complete track's own achievement recorded, and a recorded key is not granted again.
\<close>

theorem awardAchievements_idempotent:
  "awardAchievements now' (awardAchievements now s) = awardAchievements now s
   \<and> trace (awardAchievements now' (awardAchievements now s)) = trace (awardAchievements now s)
   \<and> (completedKeys (entries (getUserProgressData s (Some Modules) None False)) \<noteq> [] \<longrightarrow>
        recordedIn (awardAchievements now s) ''grand-opening'')
   \<and> (\<forall>trackId \<in> set (completedKeys (entries (getUserProgressData s (Some Tracks) None False))).
        recordedIn (awardAchievements now s) trackId)"
proof -
  let ?s1 = "awardAchievements now s"
  let ?ms = "completedKeys (entries (getUserProgressData s (Some Modules) None False))"
  let ?ts = "completedKeys (entries (getUserProgressData s (Some Tracks) None False))"
  have rec: "(?ms \<noteq> [] \<longrightarrow> recordedIn ?s1 ''grand-opening'' \<and> attachedIn ?s1)
     \<and> (\<forall>key \<in> set ?ts. recordedIn ?s1 key \<and> attachedIn ?s1)"
    by (rule award_recorded)
  have first: "(if 0 < length ?ms then grant (attachedIn ?s1) now' ''grand-opening'' ?s1 else ?s1) = ?s1"
    using rec by (simp add: grant_def)
  have rest: "fold (grant (attachedIn ?s1) now') ?ts ?s1 = ?s1"
  proof (cases "?ts = []")
    case True
    then show ?thesis by simp
  next
    case False
    then obtain k where "k \<in> set ?ts" by (cases ?ts) auto
    then have att: "attachedIn ?s1" using rec by blast
    have "\<forall>key \<in> set ?ts. recordedIn ?s1 key" using rec by blast
    with att show ?thesis by (rule fold_grant_noop)
  qed
  have "awardAchievements now' ?s1 =
      fold (grant (attachedIn ?s1) now') ?ts
        (if 0 < length ?ms then grant (attachedIn ?s1) now' ''grand-opening'' ?s1 else ?s1)"
    by (simp add: awardAchievements_def [of now'] Let_def records_award attachedIn_def)
  also have "\<dots> = fold (grant (attachedIn ?s1) now') ?ts ?s1"
    by (simp only: first)
  also have "\<dots> = ?s1"
    by (rule rest)
  finally have "awardAchievements now' ?s1 = ?s1" .
  then show ?thesis using rec by simp
qed

theorem awardAchievements_idempotent_witness:
  "completedKeys (entries (getUserProgressData (holding True doneState) (Some Modules) None False)) = [''m'']
   \<and> completedKeys (entries (getUserProgressData (holding True doneState) (Some Tracks) None False)) = [''t'']
   \<and> trace (awardAchievements ''2017-06-01T10:00:00.000Z'' (holding True doneState)) =
       [LocalStorageSet (doneState @ [(''achievements'', [(''grand-opening'', earnedNow ''2017-06-01T10:00:00.000Z'')])]),
        HttpPut ''achievements'' ''grand-opening'' (earnedNow ''2017-06-01T10:00:00.000Z''),
        LocalStorageSet (doneState @ [(''achievements'', [(''grand-opening'', earnedNow ''2017-06-01T10:00:00.000Z''),
                                                         (''t'', earnedNow ''2017-06-01T10:00:00.000Z'')])]),
        HttpPut ''achievements'' ''t'' (earnedNow ''2017-06-01T10:00:00.000Z'')]
   \<and> trace (awardAchievements ''2017-06-02T08:00:00.000Z''
              (awardAchievements ''2017-06-01T10:00:00.000Z'' (holding True doneState))) =
       trace (awardAchievements ''2017-06-01T10:00:00.000Z'' (holding True doneState))
   \<and> recordedIn (awardAchievements ''2017-06-01T10:00:00.000Z'' (holding True doneState)) ''grand-opening''
   \<and> recordedIn (awardAchievements ''2017-06-01T10:00:00.000Z'' (holding True doneState)) ''t''"
proof -
  have m: "completedKeys (entries (getUserProgressData (holding True doneState) (Some Modules) None False)) = [''m'']"
    by code_simp
  have t: "completedKeys (entries (getUserProgressData (holding True doneState) (Some Tracks) None False)) = [''t'']"
    by code_simp
  have tr: "trace (awardAchievements ''2017-06-01T10:00:00.000Z'' (holding True doneState)) =
       [LocalStorageSet (doneState @ [(''achievements'', [(''grand-opening'', earnedNow ''2017-06-01T10:00:00.000Z'')])]),
        HttpPut ''achievements'' ''grand-opening'' (earnedNow ''2017-06-01T10:00:00.000Z''),
        LocalStorageSet (doneState @ [(''achievements'', [(''grand-opening'', earnedNow ''2017-06-01T10:00:00.000Z''),
                                                         (''t'', earnedNow ''2017-06-01T10:00:00.000Z'')])]),
        HttpPut ''achievements'' ''t'' (earnedNow ''2017-06-01T10:00:00.000Z'')]"
    by code_simp
  note idem = awardAchievements_idempotent [of "''2017-06-02T08:00:00.000Z''" "''2017-06-01T10:00:00.000Z''"
      "holding True doneState", unfolded m t]
  have go: "recordedIn (awardAchievements ''2017-06-01T10:00:00.000Z'' (holding True doneState)) ''grand-opening''"
    using idem by simp
  have tt: "recordedIn (awardAchievements ''2017-06-01T10:00:00.000Z'' (holding True doneState)) ''t''"
    using idem by simp
  show ?thesis using m t tr idem go tt by (intro conjI) (simp_all only:)
qed

subsection \<open>Cascade steps that find nothing to change\<close>

text \<open>
  C1. The claim is that a cascade step with nothing to change writes nothing. The code
  tests \<^verbatim>\<open>if (newData)\<close> on an object, which is always truthy, so both steps call
  \<^verbatim>\<open>updateField\<close> with no field values. With the module \<^verbatim>\<open>m\<close> and the track \<^verbatim>\<open>t\<close> already started
  and completed and the user signed in, \<^verbatim>\<open>completeModule\<close> for the page \<^verbatim>\<open>m/u1\<close> and
  \<^verbatim>\<open>completeTracks\<close> each leave the state as it was and still write it to local storage and
  send a \<^verbatim>\<open>PUT\<close> with the unchanged record.
\<close>

theorem cascade_step_writes_without_change:
  "completeModule demoModules ''2017-06-02T08:00:00.000Z'' ''m/u1'' (holding True doneState) =
     Some (Returned, (holding True doneState)
       \<lparr>trace := [LocalStorageSet doneState,
                  HttpPut ''modules'' ''m'' (stamped ''2017-06-01T09:30:00.000Z'' ''2017-06-01T10:00:00.000Z'')]\<rparr>)
   \<and> completeTracks demoTracks ''2017-06-02T08:00:00.000Z'' (holding True doneState) =
       (holding True doneState)
       \<lparr>trace := [LocalStorageSet doneState,
                  HttpPut ''tracks'' ''t'' (stamped ''2017-06-01T10:00:00.000Z'' ''2017-06-01T10:00:00.000Z'')]\<rparr>"
  by code_simp

subsection \<open>The record last accessed\<close>

lemma touch_started_only: "touch_time (startedNow t) = None"
  by (simp add: touch_time_def startedNow_def empty_learning_def sort_default_def)

text \<open>
  C3. The claim is that \<^verbatim>\<open>getLastAccessed\<close> returns the record touched last, the touch time
  of a record being the later of its two timestamps, also when only one of them is set. In
  the code the touch time of a record with one timestamp is \<^verbatim>\<open>undefined\<close>: the sort puts
  \<^verbatim>\<open>undefined\<close> last and the reversal puts it first. Such a record compares as not later
  than any other. Of three pages started and not completed, the one started last is
  \<^verbatim>\<open>m/u2\<close>; the code returns \<^verbatim>\<open>m/u3\<close>.
\<close>

theorem getLastAccessed_started_only:
  "touch_time (startedNow ''2017-06-01T11:00:00.000Z'') = None
   \<and> touch_time (stamped ''2017-06-01T09:00:00.000Z'' ''2017-06-01T09:30:00.000Z'') =
       Some ''2017-06-01T09:30:00.000Z''
   \<and> getLastAccessed (holding False visited) Units ''m'' =
       Some (''m/u3'', startedNow ''2017-06-01T10:00:00.000Z'')"
  by code_simp

text \<open>
  The comparator is then the same constant function whatever the timestamps are, so no
  sort, of any engine, can tell two states with the same keys apart: it cannot return the
  later start in both of the states \<open>laterSecond\<close> and \<open>laterFirst\<close>.
\<close>

lemma getLastAccessedBy_any_engine:
  "\<not> (getLastAccessedBy engineSort (holding False laterSecond) Units ''m'' =
          Some (''m/u2'', startedNow ''2017-06-01T11:00:00.000Z'')
      \<and> getLastAccessedBy engineSort (holding False laterFirst) Units ''m'' =
          Some (''m/u1'', startedNow ''2017-06-01T11:00:00.000Z''))"
proof -
  let ?a = "[(''m/u1'', startedNow ''2017-06-01T09:00:00.000Z''),
             (''m/u2'', startedNow ''2017-06-01T11:00:00.000Z'')]"
  let ?b = "[(''m/u1'', startedNow ''2017-06-01T11:00:00.000Z''),
             (''m/u2'', startedNow ''2017-06-01T09:00:00.000Z'')]"
  have da: "entries (getUserProgressData (holding False laterSecond) (Some Units) (Some ''m'') True) = ?a"
    by code_simp
  have db: "entries (getUserProgressData (holding False laterFirst) (Some Units) (Some ''m'') True) = ?b"
    by code_simp
  have ca: "(\<lambda>a b. if js_gt (dateOf ?a a) (dateOf ?a b) then - 1 else (1::int)) = (\<lambda>a b. 1)"
    by (intro ext) (simp add: js_gt_def dateOf_def touch_started_only)
  have cb: "(\<lambda>a b. if js_gt (dateOf ?b a) (dateOf ?b b) then - 1 else (1::int)) = (\<lambda>a b. 1)"
    by (intro ext) (simp add: js_gt_def dateOf_def touch_started_only)
  show ?thesis
    unfolding getLastAccessedBy_def Let_def da db ca cb
    by (cases "engineSort (\<lambda>a b. 1) [''m/u1'', ''m/u2'']") (auto split: option.splits if_splits)
qed

subsection \<open>Termination of the walks over the catalog\<close>

lemma finite_parentRel: "finite (parentRel md)"
proof -
  have "parentRel md \<subseteq> (\<lambda>(k, n). (case parent n of None \<Rightarrow> k | Some p \<Rightarrow> p, k)) ` set md"
    by (force simp: parentRel_def dest: map_of_SomeD)
  then show ?thesis by (rule finite_subset) simp
qed

lemma finite_childRel: "finite (childRel md)"
proof -
  let ?kids = "\<lambda>n. set (case children n of None \<Rightarrow> [] | Some cs \<Rightarrow> cs)"
  let ?R = "\<Union>kn \<in> set md. (\<lambda>c. (c, fst kn)) ` ?kids (snd kn)"
  have "childRel md \<subseteq> ?R"
  proof
    fix x
    assume "x \<in> childRel md"
    then obtain c k where x: "x = (c, k)" and c: "c \<in> set (childrenOf md k)"
      by (auto simp: childRel_def)
    from c obtain n where n: "map_of md k = Some n" and cn: "c \<in> ?kids n"
      by (cases "map_of md k") (simp_all add: childrenOf_def)
    from n have "(k, n) \<in> set md" by (rule map_of_SomeD)
    with cn x show "x \<in> ?R" by force
  qed
  moreover have "finite ?R" by (intro finite_UN_I finite_imageI finite_set)
  ultimately show ?thesis by (rule finite_subset)
qed

lemma ascend_returns:
  assumes "wf (parentRel md)"
  shows "ascend md k (map_of md k) \<noteq> None"
  using assms
proof (induction k rule: wf_induct_rule)
  case (less k)
  show ?case
  proof (cases "map_of md k")
    case None
    then show ?thesis by (subst ascend.simps) simp
  next
    case (Some n)
    show ?thesis
    proof (cases "parent n")
      case None
      with Some show ?thesis by (subst ascend.simps) simp
    next
      case (Some p)
      with \<open>map_of md k = Some n\<close> have "(p, k) \<in> parentRel md" by (simp add: parentRel_def)
      then have "ascend md p (map_of md p) \<noteq> None" by (rule less.IH)
      with Some \<open>map_of md k = Some n\<close> show ?thesis
        by (subst ascend.simps) simp
    qed
  qed
qed

lemma getModuleRoot_returns:
  "acyclic (parentRel md) \<Longrightarrow> getModuleRoot md pageId \<noteq> None"
proof -
  assume "acyclic (parentRel md)"
  with finite_parentRel have "wf (parentRel md)" by (rule finite_acyclic_wf)
  then have a: "ascend md pageId (map_of md pageId) \<noteq> None" by (rule ascend_returns)
  show ?thesis
  proof (cases "map_of md pageId")
    case None
    then show ?thesis by (simp add: getModuleRoot_def)
  next
    case (Some n)
    with a obtain y where "ascend md pageId (Some n) = Some y" by auto
    with Some show ?thesis by (cases y) (simp_all add: getModuleRoot_def rbind_def)
  qed
qed

lemma childWalk_returns:
  assumes "wf (childRel md)"
  shows "childWalk md (childrenOf md k) \<noteq> None"
  using assms
proof (induction k rule: wf_induct_rule)
  case (less k)
  have "set cs \<subseteq> set (childrenOf md k) \<Longrightarrow> childWalk md cs \<noteq> None" for cs
  proof (induction cs)
    case Nil
    show ?case by (subst childWalk.simps) simp
  next
    case (Cons c cs)
    then have "(c, k) \<in> childRel md" by (simp add: childRel_def)
    then have "childWalk md (childrenOf md c) \<noteq> None" by (rule less.IH)
    moreover have "childWalk md cs \<noteq> None" using Cons by simp
    ultimately show ?case by (subst childWalk.simps) auto
  qed
  then show ?case by simp
qed

lemma getChildPathIds_returns:
  "acyclic (childRel md) \<Longrightarrow> getChildPathIds md pageId \<noteq> None"
  unfolding getChildPathIds_def
  by (rule childWalk_returns [OF finite_acyclic_wf [OF finite_childRel]])

lemma ascend_cycle:
  assumes "ascend md k r = Some y"
  shows "\<not> (md = cyclicParents \<and> (k = ''a'' \<or> k = ''b'') \<and> r = map_of cyclicParents k)"
  using assms
proof (induction md k r y rule: ascend.raw_induct [rotated 1, consumes 1])
  case (1 asc md k r y)
  show ?case
  proof
    assume a: "md = cyclicParents \<and> (k = ''a'' \<or> k = ''b'') \<and> r = map_of cyclicParents k"
    then have "k = ''a'' \<or> k = ''b''" by blast
    then show False
    proof
      assume "k = ''a''"
      with a 1(2) have "asc cyclicParents ''b'' (map_of cyclicParents ''b'') = Some y"
        by (simp add: cyclicParents_def node_def)
      from 1(1) [OF this] show False by simp
    next
      assume "k = ''b''"
      with a 1(2) have "asc cyclicParents ''a'' (map_of cyclicParents ''a'') = Some y"
        by (simp add: cyclicParents_def node_def)
      from 1(1) [OF this] show False by simp
    qed
  qed
qed

lemma getModuleRoot_cycle: "getModuleRoot cyclicParents ''a'' = None"
proof -
  have "ascend cyclicParents ''a'' (map_of cyclicParents ''a'') = None"
    using ascend_cycle [of cyclicParents "''a''" "map_of cyclicParents ''a''"] by (cases "ascend cyclicParents ''a'' (map_of cyclicParents ''a'')") auto
  then show ?thesis by (simp add: getModuleRoot_def rbind_def cyclicParents_def node_def)
qed

lemma childWalk_cycle:
  assumes "childWalk md cs = Some y"
  shows "\<not> (md = cyclicChildren \<and> (cs = [''a''] \<or> cs = [''b'']))"
  using assms
proof (induction md cs y rule: childWalk.raw_induct [rotated 1, consumes 1])
  case (1 walk md cs y)
  show ?case
  proof
    assume a: "md = cyclicChildren \<and> (cs = [''a''] \<or> cs = [''b''])"
    then have "cs = [''a''] \<or> cs = [''b'']" by blast
    then show False
    proof
      assume "cs = [''a'']"
      with a 1(2) obtain z where "walk cyclicChildren [''b''] = Some z"
        by (auto simp: cyclicChildren_def node_def childrenOf_def Option.bind_eq_Some_conv)
      from 1(1) [OF this] show False by simp
    next
      assume "cs = [''b'']"
      with a 1(2) obtain z where "walk cyclicChildren [''a''] = Some z"
        by (auto simp: cyclicChildren_def node_def childrenOf_def Option.bind_eq_Some_conv)
      from 1(1) [OF this] show False by simp
    qed
  qed
qed

lemma getChildPathIds_cycle: "getChildPathIds cyclicChildren ''a'' = None"
proof -
  have "childrenOf cyclicChildren ''a'' = [''b'']"
    by (simp add: cyclicChildren_def node_def childrenOf_def)
  then show ?thesis
    using childWalk_cycle [of cyclicChildren "[''b'']"]
    by (cases "childWalk cyclicChildren [''b'']") (auto simp: getChildPathIds_def)
qed


lemma acyclic_demo_parents: "acyclic (parentRel demoModules)"
  by (rule acyclicI_order [where f = "\<lambda>x. if x = ''modules'' then 3 else if x = ''m'' then 2 else (1::nat)"])
    (auto simp: parentRel_def demoModules_def node_def split: if_splits)

lemma acyclic_demo_children: "acyclic (childRel demoModules)"
  by (rule acyclicI_order [where f = "\<lambda>x. if x = ''modules'' then 1 else if x = ''m'' then 2 else (3::nat)"])
    (auto simp: childRel_def childrenOf_def demoModules_def node_def split: if_splits)

text \<open>
  C10. On a catalog whose parent links have no cycle \<^verbatim>\<open>getModuleRoot\<close> returns (a value or a
  fault) for every page identifier, and on a catalog whose child links have no cycle
  \<^verbatim>\<open>getChildPathIds\<close> returns for every page identifier. The absence of cycles is needed: on
  two nodes that name each other as parent \<^verbatim>\<open>getModuleRoot\<close> never returns, and on two nodes
  that name each other as child \<^verbatim>\<open>getChildPathIds\<close> never returns.
\<close>

theorem catalog_walks_terminate:
  "(acyclic (parentRel moduleData) \<longrightarrow> (\<exists>r. getModuleRoot moduleData pageId = Some r))
   \<and> (acyclic (childRel moduleData) \<longrightarrow> (\<exists>ids. getChildPathIds moduleData pageId = Some ids))
   \<and> getModuleRoot cyclicParents ''a'' = None
   \<and> getChildPathIds cyclicChildren ''a'' = None"
  using getModuleRoot_returns [of moduleData pageId] getChildPathIds_returns [of moduleData pageId]
    getModuleRoot_cycle getChildPathIds_cycle
  by auto

theorem catalog_walks_terminate_witness:
  "acyclic (parentRel demoModules) \<and> acyclic (childRel demoModules)
   \<and> (\<exists>r. getModuleRoot demoModules ''m/u1'' = Some r)
   \<and> (\<exists>ids. getChildPathIds demoModules ''modules'' = Some ids)
   \<and> getModuleRoot demoModules ''m/u1'' = Some (Ret (Some ''m''))
   \<and> getChildPathIds demoModules ''modules'' = Some [''m'', ''m/u1'', ''m/u2'']"
proof -
  have a: "getModuleRoot demoModules ''m/u1'' = Some (Ret (Some ''m''))" by code_simp
  have b: "getChildPathIds demoModules ''modules'' = Some [''m'', ''m/u1'', ''m/u2'']" by code_simp
  show ?thesis
    using catalog_walks_terminate [of demoModules "''m/u1''"] catalog_walks_terminate [of demoModules "''modules''"]
      acyclic_demo_parents acyclic_demo_children a b
    by blast
qed

subsection \<open>No fault on a catalog closed under its parent links\<close>












lemma childRootOf_known:
  "map_of md a = Some n \<Longrightarrow> childRootOf md a n = Ret c \<Longrightarrow> map_of md c \<noteq> None"
  by (auto simp: childRootOf_def split: option.splits if_splits)




subsection \<open>The other walks return on a catalog without cycles\<close>










subsection \<open>The range of the progress\<close>






subsection \<open>Unknown identifiers and faults\<close>







subsection \<open>The progress of a module\<close>






subsection \<open>Timestamps over sequences of calls\<close>




lemma stampedBy_simps [simp]:
  "stampedBy now empty_learning"
  "stampedBy now (startedNow now)"
  "stampedBy now (completedNow now)"
  "stampedBy now (earnedNow now)"
  "stampedBy now (empty_learning\<lparr>started_at := Some now\<rparr>)"
  "stampedBy now (empty_learning\<lparr>completed_at := Some now\<rparr>)"
  "stampedBy now (empty_learning\<lparr>started_at := Some now, completed_at := Some now\<rparr>)"
  by (simp_all add: stampedBy_def empty_learning_def startedNow_def completedNow_def earnedNow_def)





















subsection \<open>Signing in with local progress\<close>















end
